theory Spec2Isabelle
  imports Complex_Main
begin

section \<open>The generation model trainer (prompt2model/model_trainer/generate.py)\<close>

text \<open>
  \<open>GenerationModelTrainer\<close> wraps a pretrained model and its tokenizer. The model, the
  tokenizer, the dataset library and the seed generator are collaborators outside the
  file: they are taken as parameters, collected in the record \<open>externals\<close>. What the
  file itself decides is embedded: which labels \<open>preprocess_dataset\<close> builds, which
  hyperparameter names \<open>train_model\<close> accepts, which datasets, collator and metric
  function it hands to the \<open>Seq2SeqTrainer\<close>, and which warnings it logs.
\<close>

subsection \<open>Data\<close>

text \<open>A value of a hyperparameter (\<open>dict[str, Any]\<close>): a string, an integer or a float.\<close>

datatype pyval = PStr string | PInt int | PFloat real

text \<open>One row of a dataset with the columns \<open>model_input\<close> and \<open>output_col\<close>.\<close>

record example =
  model_input :: string
  output_col :: string

type_synonym dataset = "example list"

text \<open>What \<open>tokenizer.batch_encode_plus\<close> returns: the keys \<open>input_ids\<close> and
  \<open>attention_mask\<close>, one row per text.\<close>

record batch_encoding =
  enc_input_ids :: "int list list"
  enc_attention_mask :: "int list list"

text \<open>The dataset \<open>preprocess_dataset\<close> builds with \<open>Dataset.from_dict\<close>.\<close>

record preprocessed =
  input_ids :: "int list list"
  attention_mask :: "int list list"
  labels :: "int list list"

text \<open>
  The collaborators: \<open>seed_generator.get_seed()\<close>, \<open>Dataset.shuffle(seed)\<close>,
  \<open>tokenizer.batch_encode_plus(texts, truncation=True, max_length, padding=True)\<close> and
  \<open>Dataset.train_test_split(test_size, seed)\<close>, whose result has the parts
  \<open>"train"\<close> (first component) and \<open>"test"\<close> (second component).
\<close>

record externals =
  get_seed :: int
  shuffle_rows :: "int \<Rightarrow> dataset \<Rightarrow> dataset"
  batch_encode_plus :: "int option \<Rightarrow> string list \<Rightarrow> batch_encoding"
  train_test_split :: "real \<Rightarrow> int \<Rightarrow> preprocessed \<Rightarrow> preprocessed \<times> preprocessed"

text \<open>The fields of the trainer object that the two methods read.\<close>

record GenerationModelTrainer =
  has_encoder :: bool
  model_max_length :: "int option"

record Seq2SeqTrainingArguments =
  output_dir :: pyval
  logging_steps :: pyval
  evaluation_strategy :: pyval
  save_strategy :: pyval
  num_train_epochs :: pyval
  per_device_train_batch_size :: pyval
  warmup_steps :: pyval
  weight_decay :: pyval
  logging_dir :: pyval
  learning_rate :: pyval
  predict_with_generate :: bool

datatype collator = DataCollatorForSeq2Seq | DataCollatorForLanguageModeling bool

text \<open>The closure \<open>compute_metrics\<close> defined inside \<open>train_model\<close>; only whether it is
  passed to the trainer is modelled.\<close>

datatype metrics_fn = ComputeMetrics

text \<open>The arguments of the \<open>Seq2SeqTrainer\<close> on which \<open>train()\<close> is called, and the
  warnings logged on the way.\<close>

record Seq2SeqTrainer =
  args :: Seq2SeqTrainingArguments
  train_dataset :: preprocessed
  eval_dataset :: "preprocessed option"
  data_collator :: collator
  adamw_lr :: pyval
  compute_metrics :: "metrics_fn option"
  warnings :: "string list"

datatype train_error = AssertionError

subsection \<open>preprocess\_dataset\<close>

text \<open>
  Lines 89--112. The datasets are concatenated and shuffled, both columns are tokenized,
  and the labels are chosen by the model type. In the encoder-decoder branch the loop
  \<open>for i, label in enumerate(labels): labels[i] = [-100 for _ in label]\<close> overwrites
  every row of the output encodings by a row of \<open>-100\<close> of the same length.
\<close>

definition preprocess_dataset ::
  "externals \<Rightarrow> GenerationModelTrainer \<Rightarrow> dataset list \<Rightarrow> preprocessed" where
  "preprocess_dataset ext self dataset_list =
     (let concatenated_dataset = concat dataset_list;
          shuffled_dataset = shuffle_rows ext (get_seed ext) concatenated_dataset;
          inputs = map model_input shuffled_dataset;
          outputs = map output_col shuffled_dataset;
          input_encodings = batch_encode_plus ext (model_max_length self) inputs;
          output_encodings = batch_encode_plus ext (model_max_length self) outputs;
          labels = (if has_encoder self
                    then map (\<lambda>label. map (\<lambda>_. - 100) label) (enc_input_ids output_encodings)
                    else enc_input_ids input_encodings)
      in \<lparr>input_ids = enc_input_ids input_encodings,
          attention_mask = enc_attention_mask input_encodings,
          labels = labels\<rparr>)"

subsection \<open>train\_model\<close>

definition supported_keys :: "string set" where
  "supported_keys =
     {''output_dir'', ''logging_steps'', ''evaluation_strategy'', ''save_strategy'',
      ''num_train_epochs'', ''per_device_train_batch_size'', ''warmup_steps'',
      ''weight_decay'', ''logging_dir'', ''learning_rate''}"

text \<open>\<open>dict.get(key, default)\<close>.\<close>

definition py_get :: "(string \<rightharpoonup> pyval) \<Rightarrow> string \<Rightarrow> pyval \<Rightarrow> pyval" where
  "py_get d k dflt = (case d k of None \<Rightarrow> dflt | Some v \<Rightarrow> v)"

text \<open>Lines 189--205: the training arguments read from the mapping, with their defaults.\<close>

definition make_training_args ::
  "GenerationModelTrainer \<Rightarrow> (string \<rightharpoonup> pyval) \<Rightarrow> Seq2SeqTrainingArguments" where
  "make_training_args self hyperparameter_choices =
     \<lparr>output_dir = py_get hyperparameter_choices ''output_dir'' (PStr ''./result''),
      logging_steps = py_get hyperparameter_choices ''logging_steps'' (PInt 8),
      evaluation_strategy = py_get hyperparameter_choices ''evaluation_strategy''
         (if has_encoder self then PStr ''epoch'' else PStr ''no''),
      save_strategy = py_get hyperparameter_choices ''save_strategy'' (PStr ''no''),
      num_train_epochs = py_get hyperparameter_choices ''num_train_epochs'' (PInt 10),
      per_device_train_batch_size =
         py_get hyperparameter_choices ''per_device_train_batch_size'' (PInt 100),
      warmup_steps = py_get hyperparameter_choices ''warmup_steps'' (PInt 0),
      weight_decay = py_get hyperparameter_choices ''weight_decay'' (PFloat (1 / 100)),
      logging_dir = py_get hyperparameter_choices ''logging_dir'' (PStr ''./logs''),
      learning_rate = py_get hyperparameter_choices ''learning_rate'' (PFloat (1 / 10000)),
      predict_with_generate = True\<rparr>"

definition eval_warning :: string where
  "eval_warning = ''Decoder-only model doesn't support evaluation during training''"

text \<open>Python's truth value of \<open>validation_datasets\<close>: \<open>None\<close> and the empty list are
  false.\<close>

definition truthy :: "dataset list option \<Rightarrow> bool" where
  "truthy validation_datasets =
     (case validation_datasets of None \<Rightarrow> False | Some [] \<Rightarrow> False | Some (d # ds) \<Rightarrow> True)"

text \<open>
  Lines 173--254. The assertion on the keys comes first; a failed assertion ends the
  call with \<open>AssertionError\<close>, before the arguments are built, the data is preprocessed
  or a trainer exists (the interpreter is taken to run assertions, as it does unless
  started with \<open>-O\<close>). Otherwise the result is the trainer on which \<open>train()\<close> is
  called: its arguments, datasets, collator, optimizer learning rate and metric
  function, with the warnings logged before. In the branch that preprocesses the
  validation datasets, \<open>validation_datasets\<close> is a non-empty list.
\<close>

definition train_model ::
  "externals \<Rightarrow> GenerationModelTrainer \<Rightarrow> (string \<rightharpoonup> pyval) \<Rightarrow> dataset list \<Rightarrow>
   dataset list option \<Rightarrow> train_error + Seq2SeqTrainer" where
  "train_model ext self hyperparameter_choices training_datasets validation_datasets =
     (if \<not> dom hyperparameter_choices \<subseteq> supported_keys then Inl AssertionError
      else
        let training_args0 = make_training_args self hyperparameter_choices;
            forced = (evaluation_strategy training_args0 \<noteq> PStr ''no'' \<and> has_encoder self = False);
            log1 = (if forced then [eval_warning] else []);
            training_args = (if forced then training_args0\<lparr>evaluation_strategy := PStr ''no''\<rparr>
                             else training_args0);
            preprocessed_training_dataset = preprocess_dataset ext self training_datasets
        in if has_encoder self then
             (if \<not> truthy validation_datasets then
                let parts = train_test_split ext (15 / 100) (get_seed ext)
                              preprocessed_training_dataset
                in Inr \<lparr>args = training_args,
                        train_dataset = fst parts,
                        eval_dataset = Some (snd parts),
                        data_collator = DataCollatorForSeq2Seq,
                        adamw_lr = learning_rate training_args,
                        compute_metrics = Some ComputeMetrics,
                        warnings = log1\<rparr>
              else
                Inr \<lparr>args = training_args,
                     train_dataset = preprocessed_training_dataset,
                     eval_dataset = Some (preprocess_dataset ext self (the validation_datasets)),
                     data_collator = DataCollatorForSeq2Seq,
                     adamw_lr = learning_rate training_args,
                     compute_metrics = Some ComputeMetrics,
                     warnings = log1\<rparr>)
           else
             Inr \<lparr>args = training_args,
                  train_dataset = preprocessed_training_dataset,
                  eval_dataset = None,
                  data_collator = DataCollatorForLanguageModeling False,
                  adamw_lr = learning_rate training_args,
                  compute_metrics = None,
                  warnings = log1 @ (if truthy validation_datasets then [eval_warning] else [])\<rparr>)"

subsection \<open>Concrete collaborators for evaluating the model\<close>

text \<open>
  A tokenizer that maps a text to the codes of its characters, a shuffle that keeps the
  order, and a split that puts the last \<open>\<lceil>test_size * n\<rceil>\<close> rows into the test part.
\<close>

definition char_tokenizer :: "int option \<Rightarrow> string list \<Rightarrow> batch_encoding" where
  "char_tokenizer max_length texts =
     \<lparr>enc_input_ids = map (map (\<lambda>c. int (of_char c))) texts,
      enc_attention_mask = map (map (\<lambda>c. 1)) texts\<rparr>"

definition tail_split :: "real \<Rightarrow> int \<Rightarrow> preprocessed \<Rightarrow> preprocessed \<times> preprocessed" where
  "tail_split test_size seed d =
     (let n = length (input_ids d);
          n_test = nat \<lceil>test_size * real n\<rceil>;
          n_train = n - n_test
      in (\<lparr>input_ids = take n_train (input_ids d),
           attention_mask = take n_train (attention_mask d),
           labels = take n_train (labels d)\<rparr>,
          \<lparr>input_ids = drop n_train (input_ids d),
           attention_mask = drop n_train (attention_mask d),
           labels = drop n_train (labels d)\<rparr>))"

definition plain_externals :: externals where
  "plain_externals =
     \<lparr>get_seed = 42, shuffle_rows = (\<lambda>seed d. d), batch_encode_plus = char_tokenizer,
      train_test_split = tail_split\<rparr>"

definition t5_trainer :: GenerationModelTrainer where
  "t5_trainer = \<lparr>has_encoder = True, model_max_length = None\<rparr>"

definition gpt_trainer :: GenerationModelTrainer where
  "gpt_trainer = \<lparr>has_encoder = False, model_max_length = None\<rparr>"

definition one_example :: dataset where
  "one_example = [\<lparr>model_input = ''ab'', output_col = ''c''\<rparr>]"

definition two_examples :: dataset where
  "two_examples =
     [\<lparr>model_input = ''ab'', output_col = ''c''\<rparr>, \<lparr>model_input = ''d'', output_col = ''ef''\<rparr>]"

section \<open>The description-based model retriever\<close>

text \<open>
  The class \<open>DescriptionModelRetriever\<close> (module \<open>prompt2model.model_retriever\<close>) is
  not among the source files; only its test file \<open>tests/model_retriever_test.py\<close> is.
  Its operations are therefore modelled from the specification, section 4.3, and every
  definition below says so. Vectors are lists of reals: the arithmetic of the model is
  exact, where the program computes in floating point.
\<close>

subsection \<open>Data\<close>

type_synonym vec = "real list"

text \<open>Modelled from the spec: the \<open>ModelDescriptionIndex\<close> of section 3, the pair
  \<open>(encoded_vectors, lookup_indices)\<close> that the artifact at \<open>search_index_path\<close> holds.\<close>

record model_index =
  encoded_vectors :: "vec list"
  lookup_indices :: "nat list"

text \<open>Modelled from the spec: the state of \<open>DescriptionModelRetriever\<close> after
  construction (section 4.3), with the minimum-similarity threshold of step 6 as a
  field, since the spec leaves its value open.\<close>

record DescriptionModelRetriever =
  model_names :: "string list"
  model_descriptions :: "string list"
  search_depth :: nat
  search_index_path :: string
  encoder_model_name :: string
  similarity_threshold :: real

text \<open>Modelled from the spec: the error taxonomy and the two normal outcomes of
  \<open>retrieve\<close> (section 7).\<close>

datatype retrieve_error = CatalogLoadError | EncodingError | EmptyIndexError

datatype outcome = Match string | NoMatch

text \<open>The collaborators: the text encoder of section 4.2 (\<open>None\<close> when the encoder
  model fails), called with the encoder's name and the texts, and the files that hold
  persisted indices, by path.\<close>

type_synonym encoder = "string \<Rightarrow> string list \<Rightarrow> vec list option"

type_synonym files = "string \<rightharpoonup> model_index"

subsection \<open>Encoding and the index\<close>

text \<open>Modelled from the spec: the description encoder's contract (section 4.2), which
  signals \<open>EncodingError\<close> when the encoder fails or returns a number of vectors
  different from the number of texts. The function \<open>encode_text\<close> is the one the test
  file patches.\<close>

definition encode_text :: "encoder \<Rightarrow> string \<Rightarrow> string list \<Rightarrow> retrieve_error + vec list" where
  "encode_text enc name texts =
     (case enc name texts of
        None \<Rightarrow> Inl EncodingError
      | Some vs \<Rightarrow> if length vs = length texts then Inr vs else Inl EncodingError)"

definition catalog_size :: "DescriptionModelRetriever \<Rightarrow> nat" where
  "catalog_size r = length (model_names r)"

text \<open>Modelled from the spec: the recomputation branch of \<open>encode_model_descriptions\<close>,
  which encodes every catalogue description, pairs row \<open>i\<close> with catalogue position
  \<open>i\<close> and overwrites the cache.\<close>

definition compute_index ::
  "encoder \<Rightarrow> DescriptionModelRetriever \<Rightarrow> files \<Rightarrow> retrieve_error + model_index \<times> files" where
  "compute_index enc r fs =
     (case encode_text enc (encoder_model_name r) (model_descriptions r) of
        Inl e \<Rightarrow> Inl e
      | Inr vs \<Rightarrow>
          (let idx = \<lparr>encoded_vectors = vs, lookup_indices = [0..<length vs]\<rparr>
           in Inr (idx, fs(search_index_path r \<mapsto> idx))))"

text \<open>Modelled from the spec: \<open>encode_model_descriptions\<close> (section 4.3). A pair
  persisted at \<open>search_index_path\<close> is loaded and returned in preference to
  recomputation, provided its row count matches \<open>N\<close>; otherwise the index is
  recomputed and the cache overwritten. The result is the index together with the
  files afterwards.\<close>

definition encode_model_descriptions ::
  "encoder \<Rightarrow> DescriptionModelRetriever \<Rightarrow> files \<Rightarrow> retrieve_error + model_index \<times> files" where
  "encode_model_descriptions enc r fs =
     (case fs (search_index_path r) of
        Some idx \<Rightarrow>
          if length (encoded_vectors idx) = catalog_size r then Inr (idx, fs)
          else compute_index enc r fs
      | None \<Rightarrow> compute_index enc r fs)"

subsection \<open>Similarity and ranking\<close>

definition dot :: "vec \<Rightarrow> vec \<Rightarrow> real" where
  "dot u v = sum_list (map (\<lambda>(x, y). x * y) (zip u v))"

text \<open>Modelled from the spec: the similarity metric of step 3, cosine similarity. For
  a vector of norm zero the quotient is \<open>0\<close> here (HOL's division); the spec does not
  say what the score of such a row is.\<close>

definition cosine_similarity :: "vec \<Rightarrow> vec \<Rightarrow> real" where
  "cosine_similarity u v = dot u v / (sqrt (dot u u) * sqrt (dot v v))"

text \<open>Modelled from the spec: the ranking of step 4 and the tie-break of step 5. Rows
  are paired with their scores and sorted by descending score; the sort is stable, so
  among equal scores the lowest row comes first.\<close>

definition rank_rows :: "real list \<Rightarrow> (nat \<times> real) list" where
  "rank_rows scores = sort_key (\<lambda>(row, score). - score) (enumerate 0 scores)"

text \<open>Modelled from the spec: the catalogue name of a row, through \<open>lookup_indices\<close>
  (step 2: row to catalogue position). The spec requires a catalogue entry for every
  identifier in \<open>lookup_indices\<close> and names no outcome when there is none; the result
  is \<open>None\<close> then.\<close>

definition catalog_name :: "DescriptionModelRetriever \<Rightarrow> model_index \<Rightarrow> nat \<Rightarrow> string option" where
  "catalog_name r idx row =
     (if row < length (lookup_indices idx) \<and> lookup_indices idx ! row < length (model_names r)
      then Some (model_names r ! (lookup_indices idx ! row))
      else None)"

subsection \<open>retrieve\<close>

text \<open>Modelled from the spec: \<open>retrieve\<close> (section 4.3, steps 1 to 6 and the edge
  cases). An empty catalogue signals \<open>EmptyIndexError\<close> before anything is computed;
  the query is encoded by the encoder of the index; the index is loaded or computed;
  every row is scored; rows are ranked and the top \<open>search_depth\<close>, clamped to \<open>N\<close>,
  are kept; the best of them is returned unless its score is below the threshold. A
  failed call leaves the files as they were. Where no candidate is kept (a search depth
  of zero, which the spec excludes) and where the best row has no catalogue entry, the
  spec names no outcome: the model answers \<open>NoMatch\<close> and \<open>CatalogLoadError\<close>.\<close>

definition retrieve ::
  "encoder \<Rightarrow> DescriptionModelRetriever \<Rightarrow> files \<Rightarrow> string \<Rightarrow>
   (retrieve_error + outcome) \<times> files" where
  "retrieve enc r fs task_description =
     (if catalog_size r = 0 then (Inl EmptyIndexError, fs)
      else
        case encode_text enc (encoder_model_name r) [task_description] of
          Inl e \<Rightarrow> (Inl e, fs)
        | Inr [] \<Rightarrow> (Inl EncodingError, fs)
        | Inr (query # _) \<Rightarrow>
            (case encode_model_descriptions enc r fs of
               Inl e \<Rightarrow> (Inl e, fs)
             | Inr (idx, fs') \<Rightarrow>
                 (let scores = map (cosine_similarity query) (encoded_vectors idx);
                      ranked = rank_rows scores;
                      top = take (min (search_depth r) (catalog_size r)) ranked
                  in case top of
                       [] \<Rightarrow> (Inr NoMatch, fs')
                     | (row, score) # _ \<Rightarrow>
                         if score < similarity_threshold r then (Inr NoMatch, fs')
                         else (case catalog_name r idx row of
                                 None \<Rightarrow> (Inl CatalogLoadError, fs')
                               | Some name \<Rightarrow> (Inr (Match name), fs')))))"

subsection \<open>The index of the test file\<close>

text \<open>Lines 51--52 of \<open>tests/model_retriever_test.py\<close>: three vectors and the four
  lookup indices \<open>[0, 1, 2, 3]\<close>, pickled to the index path before \<open>retrieve\<close> is
  called. The catalogue of the test has three models.\<close>

definition mock_model_encodings :: "vec list" where
  "mock_model_encodings = [[1, 0, 0], [0, 1 / 10, 9 / 10], [0, 0, 1]]"

definition mock_lookup_indices :: "nat list" where
  "mock_lookup_indices = [0, 1, 2, 3]"

definition mock_index :: model_index where
  "mock_index = \<lparr>encoded_vectors = mock_model_encodings, lookup_indices = mock_lookup_indices\<rparr>"

definition tiny_retriever :: "nat \<Rightarrow> DescriptionModelRetriever" where
  "tiny_retriever depth =
     \<lparr>model_names = [''model_a'', ''model_b'', ''model_c''],
      model_descriptions = [''first'', ''second'', ''third''],
      search_depth = depth,
      search_index_path = ''index.pkl'',
      encoder_model_name = ''google/bert_uncased_L-2_H-128_A-2'',
      similarity_threshold = 1 / 2\<rparr>"

text \<open>The patched \<open>encode_text\<close> of the test: every call returns \<open>[[0, 0, 1]]\<close>.\<close>

definition mock_encoder :: encoder where
  "mock_encoder name texts = Some [[0, 0, 1]]"

section \<open>Properties of the trainer\<close>

subsection \<open>Labels built by preprocess\_dataset\<close>

lemma preprocess_dataset_labels:
  "labels (preprocess_dataset ext self dataset_list) =
     (if has_encoder self
      then map (\<lambda>label. map (\<lambda>_. - 100) label)
             (enc_input_ids (batch_encode_plus ext (model_max_length self)
                (map output_col (shuffle_rows ext (get_seed ext) (concat dataset_list)))))
      else enc_input_ids (batch_encode_plus ext (model_max_length self)
             (map model_input (shuffle_rows ext (get_seed ext) (concat dataset_list)))))"
  by (simp add: preprocess_dataset_def Let_def)

lemma preprocess_dataset_input_ids:
  "input_ids (preprocess_dataset ext self dataset_list) =
     enc_input_ids (batch_encode_plus ext (model_max_length self)
       (map model_input (shuffle_rows ext (get_seed ext) (concat dataset_list))))"
  by (simp add: preprocess_dataset_def Let_def)

text \<open>
  Claim C3: \<open>preprocess_dataset\<close> derives the labels by the model type; for an
  encoder-decoder model the labels are the token IDs of the encoded output texts, for a
  decoder-only model those of the encoded input texts.

  Evaluated on one example with input \<open>ab\<close> and output \<open>c\<close>, tokenized to character
  codes: the output text encodes to \<open>[[99]]\<close>, but the labels of the encoder-decoder
  trainer are \<open>[[-100]]\<close>; every token ID of the output is replaced by \<open>-100\<close>. The
  decoder-only trainer has the token IDs of the input, \<open>[[97, 98]]\<close>, as labels.
\<close>

theorem preprocess_dataset_encoder_labels_masked:
  "labels (preprocess_dataset plain_externals t5_trainer [one_example]) = [[- 100]]
   \<and> enc_input_ids (batch_encode_plus plain_externals (model_max_length t5_trainer)
         (map output_col one_example)) = [[99]]
   \<and> labels (preprocess_dataset plain_externals gpt_trainer [one_example]) = [[97, 98]]
   \<and> input_ids (preprocess_dataset plain_externals gpt_trainer [one_example]) = [[97, 98]]"
  by (simp add: preprocess_dataset_def Let_def plain_externals_def t5_trainer_def
      gpt_trainer_def one_example_def char_tokenizer_def)

subsection \<open>Validation of the hyperparameter names\<close>

text \<open>
  Claim C4: \<open>train_model\<close> accepts only the ten recognized hyperparameter names. A
  mapping with a key outside the set ends the call with the assertion's error, before a
  trainer is built; a mapping whose keys all lie in the set passes the assertion, and the
  call reaches the trainer.
\<close>

theorem train_model_supported_keys:
  "(train_model ext self hyperparameter_choices training_datasets validation_datasets
      = Inl AssertionError)
     = (\<not> dom hyperparameter_choices \<subseteq>
          {''output_dir'', ''logging_steps'', ''evaluation_strategy'', ''save_strategy'',
           ''num_train_epochs'', ''per_device_train_batch_size'', ''warmup_steps'',
           ''weight_decay'', ''logging_dir'', ''learning_rate''})
   \<and> (\<exists>t. train_model ext self hyperparameter_choices training_datasets validation_datasets
          = Inr t)
     = (dom hyperparameter_choices \<subseteq>
          {''output_dir'', ''logging_steps'', ''evaluation_strategy'', ''save_strategy'',
           ''num_train_epochs'', ''per_device_train_batch_size'', ''warmup_steps'',
           ''weight_decay'', ''logging_dir'', ''learning_rate''})"
  unfolding supported_keys_def [symmetric]
  by (simp add: train_model_def Let_def)

theorem train_model_supported_keys_witness:
  "train_model plain_externals t5_trainer
      [''learning_rate'' \<mapsto> PFloat (1 / 1000), ''batch_size'' \<mapsto> PInt 4] [one_example] None
     = Inl AssertionError
   \<and> (\<exists>t. train_model plain_externals t5_trainer
      [''learning_rate'' \<mapsto> PFloat (1 / 1000), ''num_train_epochs'' \<mapsto> PInt 4] [one_example] None
     = Inr t)"
  using train_model_supported_keys [of plain_externals t5_trainer
      "[''learning_rate'' \<mapsto> PFloat (1 / 1000), ''batch_size'' \<mapsto> PInt 4]" "[one_example]" None]
    train_model_supported_keys [of plain_externals t5_trainer
      "[''learning_rate'' \<mapsto> PFloat (1 / 1000), ''num_train_epochs'' \<mapsto> PInt 4]" "[one_example]" None]
  by simp

subsection \<open>The validation set\<close>

text \<open>
  Claim C5: with an encoder-decoder model and no validation datasets (\<open>None\<close> or an
  empty list, both false for \<open>not validation_datasets\<close>), the preprocessed training data
  is split with \<open>test_size = 0.15\<close>: the trainer trains on the \<open>train\<close> part and
  validates on the \<open>test\<close> part. A decoder-only model trains on all the preprocessed
  data and has no validation set. Validation datasets given to an encoder-decoder model
  are preprocessed and used, and the training data is not split.
\<close>

theorem train_model_validation_split:
  assumes "dom hyperparameter_choices \<subseteq> supported_keys"
  shows "\<exists>t. train_model ext self hyperparameter_choices training_datasets validation_datasets = Inr t
     \<and> (has_encoder self \<and> (validation_datasets = None \<or> validation_datasets = Some []) \<longrightarrow>
          train_dataset t = fst (train_test_split ext (15 / 100) (get_seed ext)
                                   (preprocess_dataset ext self training_datasets))
          \<and> eval_dataset t = Some (snd (train_test_split ext (15 / 100) (get_seed ext)
                                   (preprocess_dataset ext self training_datasets))))
     \<and> (\<not> has_encoder self \<longrightarrow>
          train_dataset t = preprocess_dataset ext self training_datasets
          \<and> eval_dataset t = None)
     \<and> (\<forall>d ds. has_encoder self \<and> validation_datasets = Some (d # ds) \<longrightarrow>
          train_dataset t = preprocess_dataset ext self training_datasets
          \<and> eval_dataset t = Some (preprocess_dataset ext self (d # ds)))"
  using assms by (auto simp: train_model_def Let_def truthy_def)

theorem train_model_validation_split_witness:
  "(\<exists>t. train_model plain_externals t5_trainer [''num_train_epochs'' \<mapsto> PInt 1] [two_examples] None = Inr t
      \<and> train_dataset t = \<lparr>input_ids = [[97, 98]], attention_mask = [[1, 1]], labels = [[- 100]]\<rparr>
      \<and> eval_dataset t = Some \<lparr>input_ids = [[100]], attention_mask = [[1]], labels = [[- 100, - 100]]\<rparr>)
   \<and> (\<exists>t. train_model plain_externals gpt_trainer [''num_train_epochs'' \<mapsto> PInt 1] [two_examples] None = Inr t
      \<and> train_dataset t = \<lparr>input_ids = [[97, 98], [100]], attention_mask = [[1, 1], [1]],
                              labels = [[97, 98], [100]]\<rparr>
      \<and> eval_dataset t = None)
   \<and> (\<exists>t. train_model plain_externals t5_trainer [''num_train_epochs'' \<mapsto> PInt 1] [two_examples]
              (Some [one_example]) = Inr t
      \<and> train_dataset t = \<lparr>input_ids = [[97, 98], [100]], attention_mask = [[1, 1], [1]],
                              labels = [[- 100], [- 100, - 100]]\<rparr>
      \<and> eval_dataset t = Some \<lparr>input_ids = [[97, 98]], attention_mask = [[1, 1]], labels = [[- 100]]\<rparr>)"
proof -
  have k: "dom [''num_train_epochs'' \<mapsto> PInt 1] \<subseteq> supported_keys"
    by (simp add: supported_keys_def)
  show ?thesis
    using train_model_validation_split [OF k, of plain_externals t5_trainer "[two_examples]" None]
      train_model_validation_split [OF k, of plain_externals gpt_trainer "[two_examples]" None]
      train_model_validation_split [OF k, of plain_externals t5_trainer "[two_examples]" "Some [one_example]"]
    by (simp add: preprocess_dataset_def plain_externals_def tail_split_def char_tokenizer_def
        two_examples_def one_example_def t5_trainer_def gpt_trainer_def Let_def)
qed

subsection \<open>Decoder-only models are not evaluated during training\<close>

text \<open>
  Claim C10: for a decoder-only model, whatever \<open>evaluation_strategy\<close> the mapping
  gives, the trainer's arguments carry the strategy \<open>no\<close>, the trainer gets no
  validation dataset and no metric function, and supplied validation datasets only add
  a warning to the log: the call still reaches the trainer.
\<close>

theorem train_model_decoder_only_no_evaluation:
  assumes "\<not> has_encoder self" and "dom hyperparameter_choices \<subseteq> supported_keys"
  shows "\<exists>t. train_model ext self hyperparameter_choices training_datasets validation_datasets = Inr t
     \<and> evaluation_strategy (args t) = PStr ''no''
     \<and> eval_dataset t = None
     \<and> compute_metrics t = None
     \<and> (truthy validation_datasets \<longrightarrow> eval_warning \<in> set (warnings t))"
  using assms by (auto simp: train_model_def Let_def)

theorem train_model_decoder_only_no_evaluation_witness:
  "\<exists>t. train_model plain_externals gpt_trainer [''evaluation_strategy'' \<mapsto> PStr ''epoch'']
          [two_examples] (Some [one_example]) = Inr t
     \<and> evaluation_strategy (args t) = PStr ''no''
     \<and> eval_dataset t = None
     \<and> compute_metrics t = None
     \<and> eval_warning \<in> set (warnings t)"
proof -
  have k: "dom [''evaluation_strategy'' \<mapsto> PStr ''epoch''] \<subseteq> supported_keys"
    by (simp add: supported_keys_def)
  have e: "\<not> has_encoder gpt_trainer"
    by (simp add: gpt_trainer_def)
  show ?thesis
    using train_model_decoder_only_no_evaluation
      [OF e k, of plain_externals "[two_examples]" "Some [one_example]"]
    by (simp add: truthy_def)
qed

section \<open>Properties of the retriever model\<close>

subsection \<open>The scores of the test's index\<close>

lemma mock_mid_score_below_one: "(9 / 10) / sqrt (82 / 100) < (1::real)"
proof -
  have "sqrt ((9 / 10)\<^sup>2) < sqrt (82 / 100)"
    by (subst real_sqrt_less_iff) (simp add: power2_eq_square)
  then have "9 / 10 < sqrt (82 / 100)"
    by simp
  moreover have "0 < sqrt (82 / 100 :: real)"
    by simp
  ultimately show ?thesis
    by (simp add: field_simps)
qed

lemma mock_scores:
  "map (cosine_similarity [0, 0, 1]) [[1, 0, 0], [0, 1 / 10, 9 / 10], [0, 0, 1]]
     = [0, (9 / 10) / sqrt (82 / 100), 1]"
  by (simp add: cosine_similarity_def dot_def)

lemma rank_rows_three:
  "0 < c \<Longrightarrow> c < 1 \<Longrightarrow> rank_rows [0, c, 1] = [(2, 1), (1, c), (0, 0)]"
  by (simp add: rank_rows_def enumerate_eq_zip upt_rec)

lemma mock_ranked:
  "rank_rows (map (cosine_similarity [0, 0, 1]) [[1, 0, 0], [0, 1 / 10, 9 / 10], [0, 0, 1]])
     = [(2, 1), (1, (9 / 10) / sqrt (82 / 100)), (0, 0)]"
  unfolding mock_scores by (rule rank_rows_three) (simp, rule mock_mid_score_below_one)

subsection \<open>The exact match\<close>

text \<open>
  Claim C1: with the vectors \<open>[[1,0,0],[0,0.1,0.9],[0,0,1]]\<close> persisted at the index
  path, together with lookup indices that send row 2 to catalogue position 2 (the
  test's \<open>[0, 1, 2, 3]\<close> do), over a catalogue of three models, a query encoded as
  \<open>[0,0,1]\<close> retrieves the model name at catalogue position 2, for a search depth of 2
  and of 3 alike, provided the threshold is at most the score 1 of the exact match.
  The persisted files are left as they were.
\<close>

theorem retrieve_exact_cosine_match:
  assumes names: "model_names r = [n0, n1, n2]"
    and depth: "search_depth r = 2 \<or> search_depth r = 3"
    and thr: "similarity_threshold r \<le> 1"
    and persisted: "fs (search_index_path r) = Some idx"
    and vecs: "encoded_vectors idx = [[1, 0, 0], [0, 1 / 10, 9 / 10], [0, 0, 1]]"
    and lk: "2 < length (lookup_indices idx)" "lookup_indices idx ! 2 = 2"
    and query: "enc (encoder_model_name r) [task_description] = Some [[0, 0, 1]]"
  shows "retrieve enc r fs task_description = (Inr (Match (model_names r ! 2)), fs)"
proof -
  have n: "catalog_size r = 3"
    by (simp add: catalog_size_def names)
  have q: "encode_text enc (encoder_model_name r) [task_description] = Inr [[0, 0, 1]]"
    by (simp add: encode_text_def query)
  have ld: "encode_model_descriptions enc r fs = Inr (idx, fs)"
    by (simp add: encode_model_descriptions_def persisted vecs n)
  have nm: "catalog_name r idx 2 = Some n2"
    by (simp add: catalog_name_def lk names)
  have rk: "rank_rows (map (cosine_similarity [0, 0, 1]) (encoded_vectors idx))
      = [(2, 1), (1, (9 / 10) / sqrt (82 / 100)), (0, 0)]"
    unfolding vecs by (rule mock_ranked)
  have "retrieve enc r fs task_description = (Inr (Match n2), fs)"
    using thr depth by (auto simp: retrieve_def n q ld rk nm Let_def)
  then show ?thesis
    by (simp add: names)
qed

theorem retrieve_exact_cosine_match_witness:
  "retrieve mock_encoder (tiny_retriever 2) [''index.pkl'' \<mapsto> mock_index] ''generate text''
     = (Inr (Match ''model_c''), [''index.pkl'' \<mapsto> mock_index])
   \<and> retrieve mock_encoder (tiny_retriever 3) [''index.pkl'' \<mapsto> mock_index] ''generate text''
     = (Inr (Match ''model_c''), [''index.pkl'' \<mapsto> mock_index])"
proof -
  have a: "retrieve mock_encoder (tiny_retriever d) [''index.pkl'' \<mapsto> mock_index] ''generate text''
     = (Inr (Match (model_names (tiny_retriever d) ! 2)), [''index.pkl'' \<mapsto> mock_index])"
    if "d = 2 \<or> d = 3" for d
    using that
    by (intro retrieve_exact_cosine_match
          [where idx = mock_index and ?n0.0 = "''model_a''" and ?n1.0 = "''model_b''"
             and ?n2.0 = "''model_c''"])
       (simp_all add: tiny_retriever_def mock_index_def mock_model_encodings_def
          mock_lookup_indices_def mock_encoder_def)
  show ?thesis
    using a [of 2] a [of 3] by (simp add: tiny_retriever_def)
qed

end
